theory Spec2Isabelle
  imports Main
begin

section \<open>Parse tree (parse_tree.h)\<close>

text \<open>
  Every child of a node is a \<^verbatim>\<open>std::unique_ptr<ASTNode>\<close>, which may be null: a child is
  an \<open>ASTNode option\<close>, \<open>None\<close> being the null pointer. The constructors keep the field
  order of the structs. \<open>OtherNode\<close> stands for a node whose dynamic type is none of the
  types \<^verbatim>\<open>check_node\<close> casts to (a plain \<^verbatim>\<open>ASTNode\<close>, or a \<^verbatim>\<open>FunctionNode\<close> or
  \<^verbatim>\<open>ProgramNode\<close> hung into the tree): the analyzer never looks inside such a node.
\<close>

datatype ASTNode =
    BlockNode "ASTNode option list"
  | VariableNode string string "ASTNode option"
  | CallNode string "ASTNode option list"
  | NameNode string
  | LiteralNode string string
  | BinaryOpNode string "ASTNode option" "ASTNode option"
  | AssignmentNode string "ASTNode option"
  | ReturnNode "ASTNode option"
  | IfNode "ASTNode option" "ASTNode option" "ASTNode option"
  | WhileNode "ASTNode option" "ASTNode option"
  | ForNode "ASTNode option" "ASTNode option" "ASTNode option" "ASTNode option"
  | OtherNode

text \<open>
  \<^verbatim>\<open>ProgramNode::globals\<close> and \<^verbatim>\<open>FunctionNode::params\<close> hold \<^verbatim>\<open>VariableNode\<close> objects by
  value, \<^verbatim>\<open>ProgramNode::functions\<close> holds \<^verbatim>\<open>FunctionNode\<close> objects by value.
\<close>

record Variable =
  vtype :: string
  vname :: string
  vvalue :: "ASTNode option"

record FunctionNode =
  return_type :: string
  fname :: string
  fparams :: "Variable list"
  fbody :: "ASTNode option"

record ProgramNode =
  program_functions :: "FunctionNode list"
  program_globals :: "Variable list"

section \<open>Scopes (scope_analyzer.h, class Scope)\<close>

datatype ScopeError =
    UndeclaredVariable
  | UndefinedFunction
  | VariableRedefined
  | FunctionRedefined

text \<open>
  The \<^verbatim>\<open>symbols\<close> table of one scope. The \<^verbatim>\<open>parent\<close> pointer is the position in a chain:
  a \<^verbatim>\<open>Scope*\<close> is the list of the tables from the scope it points to outwards, the null
  pointer being the empty list.
\<close>

type_synonym Scope = "string \<rightharpoonup> string"

definition add :: "Scope \<Rightarrow> string \<Rightarrow> string \<Rightarrow> bool \<times> Scope" where
  "add symbols name ty =
     (if symbols name \<noteq> None then (False, symbols) else (True, symbols(name \<mapsto> ty)))"

definition in_scope :: "Scope \<Rightarrow> string \<Rightarrow> bool" where
  "in_scope symbols name = (symbols name \<noteq> None)"

fun find_scope :: "Scope list \<Rightarrow> string \<Rightarrow> string" where
  "find_scope [] name = ''''"
| "find_scope (symbols # parent) name =
     (case symbols name of Some ty \<Rightarrow> ty | None \<Rightarrow> find_scope parent name)"

section \<open>The analyzer (scope_analyzer.h, class ScopeAnalyzer)\<close>

text \<open>
  The analyzer's state. \<open>errors\<close> is the vector of error kinds, \<open>cout\<close> the messages written
  to the standard output so far: one entry for each \<^verbatim>\<open>std::cout << "Error: " << msg\<close>, the
  text before its \<^verbatim>\<open>std::endl\<close> (the name is printed as it is, so an entry is one line of
  output only when the name holds no newline). The constructor makes \<^verbatim>\<open>current\<close> and
  \<^verbatim>\<open>global\<close> the same object, \<^verbatim>\<open>enter_scope\<close> pushes a scope whose parent is \<^verbatim>\<open>current\<close> and
  \<^verbatim>\<open>leave_scope\<close> pops it, so the scopes reachable from \<^verbatim>\<open>current\<close> are a stack whose
  bottom is the object \<^verbatim>\<open>global\<close> points to: \<open>locals\<close> are the scopes above the global one,
  innermost first, and \<^verbatim>\<open>current\<close> is the head of \<open>locals\<close>, or the global scope when there
  is none.
\<close>

record ScopeAnalyzer =
  errors :: "ScopeError list"
  cout :: "string list"
  locals :: "Scope list"
  global :: Scope

definition new_ScopeAnalyzer :: ScopeAnalyzer where
  "new_ScopeAnalyzer = \<lparr>errors = [], cout = [], locals = [], global = Map.empty\<rparr>"

definition current :: "ScopeAnalyzer \<Rightarrow> Scope list" where
  "current st = locals st @ [global st]"

definition current_symbols :: "ScopeAnalyzer \<Rightarrow> Scope" where
  "current_symbols st = (case locals st of [] \<Rightarrow> global st | s # _ \<Rightarrow> s)"

definition set_current_symbols :: "Scope \<Rightarrow> ScopeAnalyzer \<Rightarrow> ScopeAnalyzer" where
  "set_current_symbols s st =
     (case locals st of [] \<Rightarrow> st\<lparr>global := s\<rparr> | _ # ls \<Rightarrow> st\<lparr>locals := s # ls\<rparr>)"

definition message :: "ScopeError \<Rightarrow> string \<Rightarrow> string" where
  "message err name =
     (case err of
        UndefinedFunction \<Rightarrow> ''Undefined function: '' @ name
      | UndeclaredVariable \<Rightarrow> ''Undeclared variable: '' @ name
      | VariableRedefined \<Rightarrow> ''Variable redefined: '' @ name
      | FunctionRedefined \<Rightarrow> ''Function redefined: '' @ name)"

definition error :: "ScopeError \<Rightarrow> string \<Rightarrow> ScopeAnalyzer \<Rightarrow> ScopeAnalyzer" where
  "error err name st =
     st\<lparr>errors := errors st @ [err], cout := cout st @ [''Error: '' @ message err name]\<rparr>"

definition enter_scope :: "ScopeAnalyzer \<Rightarrow> ScopeAnalyzer" where
  "enter_scope st = st\<lparr>locals := Map.empty # locals st\<rparr>"

text \<open>
  \<^verbatim>\<open>leave_scope\<close> is only ever called after the \<^verbatim>\<open>enter_scope\<close> it closes, so \<open>locals\<close> is
  not empty there (lemma \<open>check_node_locals\<close> below).
\<close>

definition leave_scope :: "ScopeAnalyzer \<Rightarrow> ScopeAnalyzer" where
  "leave_scope st = st\<lparr>locals := tl (locals st)\<rparr>"

function (sequential) check_node :: "ASTNode option \<Rightarrow> ScopeAnalyzer \<Rightarrow> ScopeAnalyzer" where
  "check_node None st = st"
| "check_node (Some (BlockNode statements)) st =
     leave_scope (fold check_node statements (enter_scope st))"
| "check_node (Some (VariableNode ty name val)) st =
     (let st1 = (if in_scope (current_symbols st) name
                 then error VariableRedefined name st
                 else set_current_symbols (snd (add (current_symbols st) name ty)) st)
      in if val \<noteq> None then check_node val st1 else st1)"
| "check_node (Some (CallNode name args)) st =
     (let st1 = (if find_scope [global st] name \<noteq> ''function''
                 then error UndefinedFunction name st else st)
      in fold check_node args st1)"
| "check_node (Some (NameNode name)) st =
     (if find_scope (current st) name = [] then error UndeclaredVariable name st else st)"
| "check_node (Some (AssignmentNode name val)) st =
     (let st1 = check_node val st
      in if find_scope (current st1) name = [] then error UndeclaredVariable name st1 else st1)"
| "check_node (Some (ReturnNode val)) st =
     (if val \<noteq> None then check_node val st else st)"
| "check_node (Some (IfNode condition then_branch else_branch)) st =
     (let st1 = check_node condition st;
          st2 = check_node then_branch st1
      in if else_branch \<noteq> None then check_node else_branch st2 else st2)"
| "check_node (Some (WhileNode condition body)) st =
     check_node body (check_node condition st)"
| "check_node (Some (ForNode initializer condition increment body)) st =
     (let st0 = enter_scope st;
          st1 = (if initializer \<noteq> None then check_node initializer st0 else st0);
          st2 = (if condition \<noteq> None then check_node condition st1 else st1);
          st3 = (if increment \<noteq> None then check_node increment st2 else st2);
          st4 = (if body \<noteq> None then check_node body st3 else st3)
      in leave_scope st4)"
| "check_node (Some (BinaryOpNode op left right)) st =
     check_node right (check_node left st)"
| "check_node (Some (LiteralNode ty v)) st = st"
| "check_node (Some OtherNode) st = st"
  by pat_completeness auto
termination
  apply (relation "measure (\<lambda>(n, st). size_option size n)")
  apply (auto simp: less_Suc_eq_le)
  subgoal for statements x
    using size_list_estimation' [of x statements "size_option size x" "size_option size"]
    by simp
  subgoal for args x
    using size_list_estimation' [of x args "size_option size x" "size_option size"]
    by simp
  done

definition declare_param :: "Variable \<Rightarrow> ScopeAnalyzer \<Rightarrow> ScopeAnalyzer" where
  "declare_param param st =
     (case add (current_symbols st) (vname param) (vtype param) of
        (ok, s) \<Rightarrow>
          let st1 = set_current_symbols s st
          in if \<not> ok then error VariableRedefined (vname param) st1 else st1)"

definition check_function :: "FunctionNode \<Rightarrow> ScopeAnalyzer \<Rightarrow> ScopeAnalyzer" where
  "check_function func st =
     (let st1 = enter_scope st;
          st2 = fold declare_param (fparams func) st1;
          st3 = (if fbody func \<noteq> None then check_node (fbody func) st2 else st2)
      in leave_scope st3)"

text \<open>The two loops of phase 1 call \<^verbatim>\<open>global->add\<close>.\<close>

definition declare_global :: "string \<Rightarrow> string \<Rightarrow> ScopeError \<Rightarrow> ScopeAnalyzer \<Rightarrow> ScopeAnalyzer" where
  "declare_global name ty err st =
     (case add (global st) name ty of
        (ok, g) \<Rightarrow>
          let st1 = st\<lparr>global := g\<rparr>
          in if \<not> ok then error err name st1 else st1)"

definition phase1_globals :: "ProgramNode \<Rightarrow> ScopeAnalyzer \<Rightarrow> ScopeAnalyzer" where
  "phase1_globals program st =
     fold (\<lambda>var. declare_global (vname var) (vtype var) VariableRedefined) (program_globals program) st"

definition phase1_functions :: "ProgramNode \<Rightarrow> ScopeAnalyzer \<Rightarrow> ScopeAnalyzer" where
  "phase1_functions program st =
     fold (\<lambda>func. declare_global (fname func) ''function'' FunctionRedefined)
       (program_functions program) st"

definition phase2 :: "ProgramNode \<Rightarrow> ScopeAnalyzer \<Rightarrow> ScopeAnalyzer" where
  "phase2 program st = fold check_function (program_functions program) st"

definition check_initializer :: "Variable \<Rightarrow> ScopeAnalyzer \<Rightarrow> ScopeAnalyzer" where
  "check_initializer var st = (if vvalue var \<noteq> None then check_node (vvalue var) st else st)"

definition phase3 :: "ProgramNode \<Rightarrow> ScopeAnalyzer \<Rightarrow> ScopeAnalyzer" where
  "phase3 program st = fold check_initializer (program_globals program) st"

text \<open>\<^verbatim>\<open>check\<close> returns \<^verbatim>\<open>errors.empty()\<close> and leaves the analyzer in its final state.\<close>

definition check :: "ProgramNode \<Rightarrow> ScopeAnalyzer \<Rightarrow> bool \<times> ScopeAnalyzer" where
  "check program st =
     (let st1 = phase1_globals program st;
          st2 = phase1_functions program st1;
          st3 = phase2 program st2;
          st4 = phase3 program st3
      in (errors st4 = [], st4))"

definition getErrors :: "ScopeAnalyzer \<Rightarrow> ScopeError list" where
  "getErrors st = errors st"

definition passed :: "ScopeAnalyzer \<Rightarrow> bool" where
  "passed st = (errors st = [])"

definition errorCount :: "ScopeAnalyzer \<Rightarrow> nat" where
  "errorCount st = length (errors st)"

section \<open>Notions used to state the properties\<close>

text \<open>
  \<open>extends st st'\<close>: \<open>st'\<close> has the scope stack of \<open>st\<close>, except that the current scope may
  have gained bindings. \<open>fresh g\<close> is an analyzer with no error, no output and no open
  local scope, whose global scope is \<open>g\<close>.
\<close>

definition extends :: "ScopeAnalyzer \<Rightarrow> ScopeAnalyzer \<Rightarrow> bool" where
  "extends st st' \<longleftrightarrow>
     length (locals st') = length (locals st) \<and> tl (locals st') = tl (locals st) \<and>
     current_symbols st \<subseteq>\<^sub>m current_symbols st' \<and>
     (locals st \<noteq> [] \<longrightarrow> global st' = global st)"

definition fresh :: "Scope \<Rightarrow> ScopeAnalyzer" where
  "fresh g = \<lparr>errors = [], cout = [], locals = [], global = g\<rparr>"

text \<open>
  The message \<^verbatim>\<open>error\<close> writes for an error kind and a name: the text it sends to the
  standard output before the \<^verbatim>\<open>std::endl\<close>.
\<close>

definition error_line :: "ScopeError \<Rightarrow> string \<Rightarrow> string" where
  "error_line err name = ''Error: '' @ message err name"

text \<open>
  The names of the \<^verbatim>\<open>CallNode\<close>s of a tree, in the order \<^verbatim>\<open>check_node\<close> visits them, and
  those of a program: the function bodies, then the initializers of the globals. (The
  analyzer reads only the name and the type of a parameter.)
\<close>

function (sequential) calls :: "ASTNode option \<Rightarrow> string list" where
  "calls None = []"
| "calls (Some (BlockNode statements)) = concat (map calls statements)"
| "calls (Some (VariableNode ty name val)) = calls val"
| "calls (Some (CallNode name args)) = name # concat (map calls args)"
| "calls (Some (NameNode name)) = []"
| "calls (Some (AssignmentNode name val)) = calls val"
| "calls (Some (ReturnNode val)) = calls val"
| "calls (Some (IfNode condition then_branch else_branch)) =
     calls condition @ calls then_branch @ calls else_branch"
| "calls (Some (WhileNode condition body)) = calls condition @ calls body"
| "calls (Some (ForNode initializer condition increment body)) =
     calls initializer @ calls condition @ calls increment @ calls body"
| "calls (Some (BinaryOpNode op left right)) = calls left @ calls right"
| "calls (Some (LiteralNode ty v)) = []"
| "calls (Some OtherNode) = []"
  by pat_completeness auto
termination
  apply (relation "measure (size_option size)")
  apply (auto simp: less_Suc_eq_le)
  subgoal for statements x
    using size_list_estimation' [of x statements "size_option size x" "size_option size"]
    by simp
  subgoal for args x
    using size_list_estimation' [of x args "size_option size x" "size_option size"]
    by simp
  done

definition program_calls :: "ProgramNode \<Rightarrow> string list" where
  "program_calls program =
     concat (map (\<lambda>func. calls (fbody func)) (program_functions program)) @
     concat (map (\<lambda>var. calls (vvalue var)) (program_globals program))"

text \<open>
  The global declarations of a program as an association list, in the order phase 1
  declares them; \<open>map_of\<close> keeps the first binding of a name, as \<^verbatim>\<open>Scope::add\<close> does.
\<close>

definition global_decls :: "ProgramNode \<Rightarrow> (string \<times> string) list" where
  "global_decls program =
     map (\<lambda>var. (vname var, vtype var)) (program_globals program) @
     map (\<lambda>func. (fname func, ''function'')) (program_functions program)"

text \<open>
  Lookup as the specification describes it (\<open>resolve(name) -> optional<type>\<close>): the type
  bound to the name in the nearest scope of the chain that binds it, or nothing.
\<close>

fun resolve :: "Scope list \<Rightarrow> string \<Rightarrow> string option" where
  "resolve [] name = None"
| "resolve (symbols # parent) name =
     (case symbols name of Some ty \<Rightarrow> Some ty | None \<Rightarrow> resolve parent name)"

text \<open>
  How many of the calls \<open>cs\<close> name \<open>f\<close> without finding a function, when the global scope
  binds \<open>f\<close> to the type tag \<open>t\<close>.
\<close>

definition undefined_reports :: "string \<Rightarrow> string \<Rightarrow> string list \<Rightarrow> nat" where
  "undefined_reports t f cs = (if t = ''function'' then 0 else count_list cs f)"

text \<open>
  \<^verbatim>\<open>int main() { later(); }  int later() { }\<close>: a call to a function declared after the
  caller.
\<close>

definition forward_call_program :: ProgramNode where
  "forward_call_program =
     \<lparr>program_functions =
        [\<lparr>return_type = ''int'', fname = ''main'', fparams = [],
          fbody = Some (BlockNode [Some (CallNode ''later'' [])])\<rparr>,
         \<lparr>return_type = ''int'', fname = ''later'', fparams = [],
          fbody = Some (BlockNode [])\<rparr>],
      program_globals = []\<rparr>"

text \<open>
  A global variable \<^verbatim>\<open>f\<close> of type tag \<open>t\<close>, the functions \<open>fs\<close>, and \<^verbatim>\<open>int main() { f(); }\<close>.
\<close>

definition call_global_program :: "string \<Rightarrow> FunctionNode list \<Rightarrow> ProgramNode" where
  "call_global_program t fs =
     \<lparr>program_functions =
        fs @ [\<lparr>return_type = ''int'', fname = ''main'', fparams = [],
               fbody = Some (BlockNode [Some (CallNode ''f'' [])])\<rparr>],
      program_globals = [\<lparr>vtype = t, vname = ''f'', vvalue = None\<rparr>]\<rparr>"

text \<open>
  The faults of a program, told without the analyzer: which error kinds are due, for
  which names and in which order, from the rules of the language alone.

  A fault is an error kind with the offending name. \<open>declare_name\<close> binds a name in one scope
  unless the scope binds it already, \<open>declared n\<close> are the declarations that checking the
  tree \<open>n\<close> leaves in the scope it is checked in (those of a block or a for loop end with
  it). A name is \<open>not_found\<close> in a chain of scopes when no scope binds it or the nearest
  binding has the empty type tag (the analyzer's not-found value, see C10), and it is
  \<open>not_a_function\<close> when the global scope does not bind it to \<^verbatim>\<open>"function"\<close>.

  \<open>faults n cur outer\<close> are the faults of the tree \<open>n\<close> checked in the scope \<open>cur\<close> whose
  enclosing scopes are \<open>outer\<close> (the last scope of the chain is the global one):
  a variable declared again in its own scope, a call of what is not a function, a name
  read or assigned that is not found; the parts of a node are taken in the order of the
  specification, each in the scope as the parts before it have left it.
\<close>

definition declare_name :: "Scope \<Rightarrow> string \<times> string \<Rightarrow> Scope" where
  "declare_name s d = (case s (fst d) of None \<Rightarrow> s(fst d \<mapsto> snd d) | Some _ \<Rightarrow> s)"

definition declare_all :: "(string \<times> string) list \<Rightarrow> Scope \<Rightarrow> Scope" where
  "declare_all ds s = foldl declare_name s ds"

definition not_found :: "Scope list \<Rightarrow> string \<Rightarrow> bool" where
  "not_found chain name = (case resolve chain name of None \<Rightarrow> True | Some ty \<Rightarrow> ty = '''')"

definition not_a_function :: "Scope \<Rightarrow> string \<Rightarrow> bool" where
  "not_a_function g name = (resolve [g] name \<noteq> Some ''function'')"

function (sequential) declared :: "ASTNode option \<Rightarrow> (string \<times> string) list" where
  "declared None = []"
| "declared (Some (BlockNode statements)) = []"
| "declared (Some (VariableNode ty name val)) = (name, ty) # declared val"
| "declared (Some (CallNode name args)) = concat (map declared args)"
| "declared (Some (NameNode name)) = []"
| "declared (Some (AssignmentNode name val)) = declared val"
| "declared (Some (ReturnNode val)) = declared val"
| "declared (Some (IfNode condition then_branch else_branch)) =
     declared condition @ declared then_branch @ declared else_branch"
| "declared (Some (WhileNode condition body)) = declared condition @ declared body"
| "declared (Some (ForNode initializer condition increment body)) = []"
| "declared (Some (BinaryOpNode op left right)) = declared left @ declared right"
| "declared (Some (LiteralNode ty v)) = []"
| "declared (Some OtherNode) = []"
  by pat_completeness auto
termination
  apply (relation "measure (size_option size)")
  apply (auto simp: less_Suc_eq_le)
  subgoal for args x
    using size_list_estimation' [of x args "size_option size x" "size_option size"]
    by simp
  done

fun faults :: "ASTNode option \<Rightarrow> Scope \<Rightarrow> Scope list \<Rightarrow> (ScopeError \<times> string) list"
  and faults_seq :: "ASTNode option list \<Rightarrow> Scope \<Rightarrow> Scope list \<Rightarrow> (ScopeError \<times> string) list"
  where
  "faults None cur outer = []"
| "faults (Some (BlockNode statements)) cur outer = faults_seq statements Map.empty (cur # outer)"
| "faults (Some (VariableNode ty name val)) cur outer =
     (if cur name \<noteq> None then [(VariableRedefined, name)] else []) @
     faults val (declare_name cur (name, ty)) outer"
| "faults (Some (CallNode name args)) cur outer =
     (if not_a_function (last (cur # outer)) name then [(UndefinedFunction, name)] else []) @
     faults_seq args cur outer"
| "faults (Some (NameNode name)) cur outer =
     (if not_found (cur # outer) name then [(UndeclaredVariable, name)] else [])"
| "faults (Some (AssignmentNode name val)) cur outer =
     faults val cur outer @
     (if not_found (declare_all (declared val) cur # outer) name
      then [(UndeclaredVariable, name)] else [])"
| "faults (Some (ReturnNode val)) cur outer = faults val cur outer"
| "faults (Some (IfNode condition then_branch else_branch)) cur outer =
     faults condition cur outer @
     faults then_branch (declare_all (declared condition) cur) outer @
     faults else_branch (declare_all (declared condition @ declared then_branch) cur) outer"
| "faults (Some (WhileNode condition body)) cur outer =
     faults condition cur outer @ faults body (declare_all (declared condition) cur) outer"
| "faults (Some (ForNode initializer condition increment body)) cur outer =
     faults initializer Map.empty (cur # outer) @
     faults condition (declare_all (declared initializer) Map.empty) (cur # outer) @
     faults increment (declare_all (declared initializer @ declared condition) Map.empty)
       (cur # outer) @
     faults body
       (declare_all (declared initializer @ declared condition @ declared increment) Map.empty)
       (cur # outer)"
| "faults (Some (BinaryOpNode op left right)) cur outer =
     faults left cur outer @ faults right (declare_all (declared left) cur) outer"
| "faults (Some (LiteralNode ty v)) cur outer = []"
| "faults (Some OtherNode) cur outer = []"
| "faults_seq [] cur outer = []"
| "faults_seq (x # xs) cur outer =
     faults x cur outer @ faults_seq xs (declare_all (declared x) cur) outer"

text \<open>
  The faults of the phases. \<open>redeclarations err seen names\<close>: a fault \<open>err\<close> for each name
  of the list that \<open>seen\<close> or an earlier place of the list holds already. A function's
  faults are the parameters declared twice and then the faults of its body, in a scope of
  its own that holds the parameters and lies in the global scope \<open>g\<close>. The faults of the
  initializers are found in the global scope itself, one global after the other.
\<close>

fun redeclarations :: "ScopeError \<Rightarrow> string list \<Rightarrow> string list \<Rightarrow> (ScopeError \<times> string) list"
  where
  "redeclarations err seen [] = []"
| "redeclarations err seen (name # names) =
     (if name \<in> set seen then [(err, name)] else []) @ redeclarations err (name # seen) names"

definition function_faults :: "Scope \<Rightarrow> FunctionNode \<Rightarrow> (ScopeError \<times> string) list" where
  "function_faults g func =
     redeclarations VariableRedefined [] (map vname (fparams func)) @
     faults (fbody func)
       (declare_all (map (\<lambda>param. (vname param, vtype param)) (fparams func)) Map.empty) [g]"

fun initializer_faults :: "Scope \<Rightarrow> Variable list \<Rightarrow> (ScopeError \<times> string) list" where
  "initializer_faults g [] = []"
| "initializer_faults g (var # vars) =
     faults (vvalue var) g [] @ initializer_faults (declare_all (declared (vvalue var)) g) vars"

definition global_scope :: "ProgramNode \<Rightarrow> Scope" where
  "global_scope program = declare_all (global_decls program) Map.empty"

definition program_faults :: "ProgramNode \<Rightarrow> (ScopeError \<times> string) list" where
  "program_faults program =
     redeclarations VariableRedefined [] (map vname (program_globals program)) @
     redeclarations FunctionRedefined (map vname (program_globals program))
       (map fname (program_functions program)) @
     concat (map (function_faults (global_scope program)) (program_functions program)) @
     initializer_faults (global_scope program) (program_globals program)"

text \<open>
  What a traversal that finds the faults \<open>fs\<close> and makes the declarations \<open>ds\<close> in the
  current scope does to the analyzer: a record for each fault's kind, a message for each
  fault, and the declarations.
\<close>

definition outcome ::
  "(ScopeError \<times> string) list \<Rightarrow> (string \<times> string) list \<Rightarrow> ScopeAnalyzer \<Rightarrow> ScopeAnalyzer" where
  "outcome fs ds st =
     set_current_symbols (declare_all ds (current_symbols st))
       (st\<lparr>errors := errors st @ map fst fs,
           cout := cout st @ map (\<lambda>(kind, name). error_line kind name) fs\<rparr>)"

text \<open>
  The work of the traversal: \<open>T_check_node\<close> counts the calls of \<^verbatim>\<open>check_node\<close> (one for the
  call itself, null pointer or not, plus those it makes), following the code's own
  recursion; \<open>T_check_nodes\<close> is the loop over a vector of children. \<open>T_check_function\<close> adds
  one for the call and one for each pass of the parameter loop, and \<open>T_check\<close> one for
  each pass of the four loops of \<^verbatim>\<open>check\<close>.
\<close>

fun T_check_node :: "ASTNode option \<Rightarrow> ScopeAnalyzer \<Rightarrow> nat"
  and T_check_nodes :: "ASTNode option list \<Rightarrow> ScopeAnalyzer \<Rightarrow> nat" where
  "T_check_node None st = 1"
| "T_check_node (Some (BlockNode statements)) st = 1 + T_check_nodes statements (enter_scope st)"
| "T_check_node (Some (VariableNode ty name val)) st =
     (let st1 = (if in_scope (current_symbols st) name
                 then error VariableRedefined name st
                 else set_current_symbols (snd (add (current_symbols st) name ty)) st)
      in 1 + (if val \<noteq> None then T_check_node val st1 else 0))"
| "T_check_node (Some (CallNode name args)) st =
     (let st1 = (if find_scope [global st] name \<noteq> ''function''
                 then error UndefinedFunction name st else st)
      in 1 + T_check_nodes args st1)"
| "T_check_node (Some (NameNode name)) st = 1"
| "T_check_node (Some (AssignmentNode name val)) st = 1 + T_check_node val st"
| "T_check_node (Some (ReturnNode val)) st =
     1 + (if val \<noteq> None then T_check_node val st else 0)"
| "T_check_node (Some (IfNode condition then_branch else_branch)) st =
     (let st1 = check_node condition st;
          st2 = check_node then_branch st1
      in 1 + T_check_node condition st + T_check_node then_branch st1 +
         (if else_branch \<noteq> None then T_check_node else_branch st2 else 0))"
| "T_check_node (Some (WhileNode condition body)) st =
     1 + T_check_node condition st + T_check_node body (check_node condition st)"
| "T_check_node (Some (ForNode initializer condition increment body)) st =
     (let st0 = enter_scope st;
          st1 = (if initializer \<noteq> None then check_node initializer st0 else st0);
          st2 = (if condition \<noteq> None then check_node condition st1 else st1);
          st3 = (if increment \<noteq> None then check_node increment st2 else st2)
      in 1 + (if initializer \<noteq> None then T_check_node initializer st0 else 0) +
         (if condition \<noteq> None then T_check_node condition st1 else 0) +
         (if increment \<noteq> None then T_check_node increment st2 else 0) +
         (if body \<noteq> None then T_check_node body st3 else 0))"
| "T_check_node (Some (BinaryOpNode op left right)) st =
     1 + T_check_node left st + T_check_node right (check_node left st)"
| "T_check_node (Some (LiteralNode ty v)) st = 1"
| "T_check_node (Some OtherNode) st = 1"
| "T_check_nodes [] st = 0"
| "T_check_nodes (x # xs) st = T_check_node x st + T_check_nodes xs (check_node x st)"

definition T_check_function :: "FunctionNode \<Rightarrow> ScopeAnalyzer \<Rightarrow> nat" where
  "T_check_function func st =
     (let st1 = enter_scope st;
          st2 = fold declare_param (fparams func) st1
      in 1 + length (fparams func) +
         (if fbody func \<noteq> None then T_check_node (fbody func) st2 else 0))"

fun T_phase2 :: "FunctionNode list \<Rightarrow> ScopeAnalyzer \<Rightarrow> nat" where
  "T_phase2 [] st = 0"
| "T_phase2 (func # funcs) st =
     1 + T_check_function func st + T_phase2 funcs (check_function func st)"

fun T_phase3 :: "Variable list \<Rightarrow> ScopeAnalyzer \<Rightarrow> nat" where
  "T_phase3 [] st = 0"
| "T_phase3 (var # vars) st =
     1 + (if vvalue var \<noteq> None then T_check_node (vvalue var) st else 0) +
     T_phase3 vars (check_initializer var st)"

definition T_check :: "ProgramNode \<Rightarrow> ScopeAnalyzer \<Rightarrow> nat" where
  "T_check program st =
     (let st1 = phase1_globals program st;
          st2 = phase1_functions program st1;
          st3 = phase2 program st2
      in length (program_globals program) + length (program_functions program) +
         T_phase2 (program_functions program) st2 + T_phase3 (program_globals program) st3)"

text \<open>
  The size of a tree: its nodes and its null child pointers. The size of a program: its
  globals and functions, their parameters, and the trees they own.
\<close>

function (sequential) ast_size :: "ASTNode option \<Rightarrow> nat" where
  "ast_size None = 1"
| "ast_size (Some (BlockNode statements)) = 1 + sum_list (map ast_size statements)"
| "ast_size (Some (VariableNode ty name val)) = 1 + ast_size val"
| "ast_size (Some (CallNode name args)) = 1 + sum_list (map ast_size args)"
| "ast_size (Some (NameNode name)) = 1"
| "ast_size (Some (AssignmentNode name val)) = 1 + ast_size val"
| "ast_size (Some (ReturnNode val)) = 1 + ast_size val"
| "ast_size (Some (IfNode condition then_branch else_branch)) =
     1 + ast_size condition + ast_size then_branch + ast_size else_branch"
| "ast_size (Some (WhileNode condition body)) = 1 + ast_size condition + ast_size body"
| "ast_size (Some (ForNode initializer condition increment body)) =
     1 + ast_size initializer + ast_size condition + ast_size increment + ast_size body"
| "ast_size (Some (BinaryOpNode op left right)) = 1 + ast_size left + ast_size right"
| "ast_size (Some (LiteralNode ty v)) = 1"
| "ast_size (Some OtherNode) = 1"
  by pat_completeness auto
termination
  apply (relation "measure (size_option size)")
  apply (auto simp: less_Suc_eq_le)
  subgoal for statements x
    using size_list_estimation' [of x statements "size_option size x" "size_option size"]
    by simp
  subgoal for args x
    using size_list_estimation' [of x args "size_option size x" "size_option size"]
    by simp
  done

definition program_size :: "ProgramNode \<Rightarrow> nat" where
  "program_size program =
     sum_list (map (\<lambda>var. 1 + ast_size (vvalue var)) (program_globals program)) +
     sum_list (map (\<lambda>func. 1 + length (fparams func) + ast_size (fbody func))
       (program_functions program))"

text \<open>A program whose only function is \<^verbatim>\<open>int main()\<close> with the given statements as body.\<close>

definition main_with :: "ASTNode option list \<Rightarrow> ProgramNode" where
  "main_with statements =
     \<lparr>program_functions =
        [\<lparr>return_type = ''int'', fname = ''main'', fparams = [],
          fbody = Some (BlockNode statements)\<rparr>],
      program_globals = []\<rparr>"

section \<open>Auxiliary facts\<close>

subsection \<open>Induction over a tree\<close>

lemma tree_induct [case_names Null Block Variable Call Name Assignment Return If While For BinaryOp Literal Other]:
  assumes "P None"
    and "\<And>statements. (\<And>x. x \<in> set statements \<Longrightarrow> P x) \<Longrightarrow> P (Some (BlockNode statements))"
    and "\<And>ty name val. P val \<Longrightarrow> P (Some (VariableNode ty name val))"
    and "\<And>name args. (\<And>x. x \<in> set args \<Longrightarrow> P x) \<Longrightarrow> P (Some (CallNode name args))"
    and "\<And>name. P (Some (NameNode name))"
    and "\<And>name val. P val \<Longrightarrow> P (Some (AssignmentNode name val))"
    and "\<And>val. P val \<Longrightarrow> P (Some (ReturnNode val))"
    and "\<And>c t e. P c \<Longrightarrow> P t \<Longrightarrow> P e \<Longrightarrow> P (Some (IfNode c t e))"
    and "\<And>c b. P c \<Longrightarrow> P b \<Longrightarrow> P (Some (WhileNode c b))"
    and "\<And>i c inc b. P i \<Longrightarrow> P c \<Longrightarrow> P inc \<Longrightarrow> P b \<Longrightarrow> P (Some (ForNode i c inc b))"
    and "\<And>op l r. P l \<Longrightarrow> P r \<Longrightarrow> P (Some (BinaryOpNode op l r))"
    and "\<And>ty v. P (Some (LiteralNode ty v))"
    and "P (Some OtherNode)"
  shows "P n"
proof (rule check_node.induct [where P = "\<lambda>n _. P n"], goal_cases)
  case (3 ty name val st)
  then show ?case using assms(1,3) by (cases val) auto
next
  case (7 val st)
  then show ?case using assms(1,7) by (cases val) auto
next
  case (8 c t e st)
  then show ?case using assms(1,8) by (cases e) auto
next
  case (10 i c inc b st)
  have "P i" "P c" "P inc" "P b"
    using 10 assms(1) by (cases i; cases c; cases inc; cases b; auto)+
  then show ?case by (rule assms(10))
qed (auto intro: assms)

subsection \<open>The primitive steps\<close>

lemma error_fields [simp]:
  "errors (error e n st) = errors st @ [e]"
  "cout (error e n st) = cout st @ [''Error: '' @ message e n]"
  "locals (error e n st) = locals st"
  "global (error e n st) = global st"
  by (simp_all add: error_def)

lemma enter_scope_fields [simp]:
  "errors (enter_scope st) = errors st"
  "cout (enter_scope st) = cout st"
  "locals (enter_scope st) = Map.empty # locals st"
  "global (enter_scope st) = global st"
  by (simp_all add: enter_scope_def)

lemma leave_scope_fields [simp]:
  "errors (leave_scope st) = errors st"
  "cout (leave_scope st) = cout st"
  "locals (leave_scope st) = tl (locals st)"
  "global (leave_scope st) = global st"
  by (simp_all add: leave_scope_def)

lemma set_current_symbols_fields [simp]:
  "errors (set_current_symbols s st) = errors st"
  "cout (set_current_symbols s st) = cout st"
  "locals (set_current_symbols s st) = (case locals st of [] \<Rightarrow> [] | _ # ls \<Rightarrow> s # ls)"
  "global (set_current_symbols s st) = (case locals st of [] \<Rightarrow> s | _ # ls \<Rightarrow> global st)"
  by (simp_all add: set_current_symbols_def split: list.splits)

lemma current_symbols_simps [simp]:
  "current_symbols (error e n st) = current_symbols st"
  "current_symbols (enter_scope st) = Map.empty"
  "current_symbols (set_current_symbols s st) = s"
  by (simp_all add: current_symbols_def split: list.splits)

lemma current_simps [simp]:
  "current (error e n st) = current st"
  "current (enter_scope st) = Map.empty # current st"
  by (simp_all add: current_def)

lemma current_hd: "current st = current_symbols st # tl (current st)"
  by (simp add: current_def current_symbols_def split: list.splits)

text \<open>The guards on null children repeat the null test at the head of \<^verbatim>\<open>check_node\<close>.\<close>

lemma check_node_Variable:
  "check_node (Some (VariableNode ty name val)) st =
     check_node val (if in_scope (current_symbols st) name
                     then error VariableRedefined name st
                     else set_current_symbols ((current_symbols st)(name \<mapsto> ty)) st)"
  by (cases val) (simp_all add: add_def in_scope_def Let_def)

lemma check_node_Call:
  "check_node (Some (CallNode name args)) st =
     fold check_node args (if global st name = Some ''function'' then st
                           else error UndefinedFunction name st)"
  by (simp split: option.splits)

lemma check_node_For:
  "check_node (Some (ForNode i c inc b)) st =
     leave_scope (check_node b (check_node inc (check_node c (check_node i (enter_scope st)))))"
  by (simp add: Let_def)

lemma check_node_If:
  "check_node (Some (IfNode c t e)) st = check_node e (check_node t (check_node c st))"
  by (simp add: Let_def)

lemma check_node_Return: "check_node (Some (ReturnNode val)) st = check_node val st"
  by simp

lemmas check_node_eqs =
  check_node.simps(1,2) check_node_Variable check_node_Call check_node.simps(5,6)
  check_node_Return check_node_If check_node.simps(9) check_node_For check_node.simps(11,12,13)

declare check_node.simps [simp del]
declare check_node_eqs [simp]

subsection \<open>Scopes are a stack\<close>

lemma extends_refl [simp]: "extends st st"
  by (simp add: extends_def)

lemma extends_trans: "extends a b \<Longrightarrow> extends b c \<Longrightarrow> extends a c"
  unfolding extends_def by (auto intro: map_le_trans)

lemma extends_error [simp]: "extends st (error e n st)"
  by (simp add: extends_def)

lemma extends_then_error: "extends a b \<Longrightarrow> extends a (error e n b)"
  by (simp add: extends_def)

lemma extends_declare:
  "current_symbols st name = None \<Longrightarrow>
   extends st (set_current_symbols ((current_symbols st)(name \<mapsto> ty)) st)"
  by (auto simp: extends_def map_le_def split: list.splits)

lemma extends_scoped:
  assumes "extends (enter_scope st) st'"
  shows "locals (leave_scope st') = locals st" "global (leave_scope st') = global st"
  using assms by (auto simp: extends_def)

lemma extends_leave: "extends (enter_scope st) st' \<Longrightarrow> extends st (leave_scope st')"
  by (auto simp: extends_def current_symbols_def split: list.splits)

lemma fold_extends:
  "(\<And>x s. x \<in> set xs \<Longrightarrow> extends s (f x s)) \<Longrightarrow> extends st (fold f xs st)"
proof (induction xs arbitrary: st)
  case Nil
  show ?case by simp
next
  case (Cons x xs)
  have "extends st (f x st)" by (simp add: Cons.prems)
  moreover have "extends (f x st) (fold f xs (f x st))"
    by (rule Cons.IH) (simp add: Cons.prems)
  ultimately show ?case by (auto intro: extends_trans)
qed

lemma check_node_extends: "extends st (check_node n st)"
proof (induction n arbitrary: st rule: tree_induct)
  case (Block statements)
  have "extends (enter_scope st) (fold check_node statements (enter_scope st))"
    by (rule fold_extends) (rule Block)
  then show ?case by (simp add: extends_leave)
next
  case (Variable ty name val)
  show ?case
    unfolding check_node_Variable
    by (rule extends_trans [OF _ Variable]) (auto simp: in_scope_def intro: extends_declare)
next
  case (Call name args)
  show ?case
    unfolding check_node_Call
    by (rule extends_trans [OF _ fold_extends [OF Call]]) auto
next
  case (Assignment name val)
  then show ?case by (simp add: Let_def extends_then_error)
next
  case (If c t e)
  show ?case unfolding check_node_If
    by (rule extends_trans [OF extends_trans [OF If(1) If(2)] If(3)])
next
  case (While c b)
  show ?case unfolding check_node.simps(9)
    by (rule extends_trans [OF While(1) While(2)])
next
  case (For i c inc b)
  have "extends (enter_scope st)
          (check_node b (check_node inc (check_node c (check_node i (enter_scope st)))))"
    by (rule extends_trans [OF extends_trans [OF extends_trans [OF For(1) For(2)] For(3)] For(4)])
  then show ?case unfolding check_node_For by (rule extends_leave)
next
  case (BinaryOp op l r)
  show ?case unfolding check_node.simps(11)
    by (rule extends_trans [OF BinaryOp(1) BinaryOp(2)])
qed simp_all

lemma fold_invariant:
  "(\<And>x s. x \<in> set xs \<Longrightarrow> P s \<Longrightarrow> P (f x s)) \<Longrightarrow> P st \<Longrightarrow> P (fold f xs st)"
  by (induction xs arbitrary: st) simp_all



lemma extends_global: "extends st st' \<Longrightarrow> global st \<subseteq>\<^sub>m global st'"
  by (cases "locals st") (auto simp: extends_def current_symbols_def)

lemma check_node_global:
  "global st x = Some ty \<Longrightarrow> global (check_node n st) x = Some ty"
  using extends_global [OF check_node_extends [of st n]] by (auto simp: map_le_def dom_def)


lemma find_scope_resolve:
  "find_scope chain name = (case resolve chain name of None \<Rightarrow> [] | Some ty \<Rightarrow> ty)"
  by (induction chain) (simp_all split: option.splits)

lemma find_scope_current:
  "current_symbols st x = Some ty \<Longrightarrow> find_scope (current st) x = ty"
  by (subst current_hd) simp

subsection \<open>Reports of undefined functions\<close>

lemma error_line_UndefinedFunction [simp]:
  "error_line e n = error_line UndefinedFunction f \<longleftrightarrow> e = UndefinedFunction \<and> n = f"
  by (cases e) (simp_all add: error_line_def message_def)

lemma cout_error_line: "cout (error e n st) = cout st @ [error_line e n]"
  by (simp add: error_line_def)

lemma fold_check_node_reports:
  assumes "\<And>x s. x \<in> set xs \<Longrightarrow> global s f = Some t \<Longrightarrow>
      count_list (cout (check_node x s)) (error_line UndefinedFunction f) =
        count_list (cout s) (error_line UndefinedFunction f) + undefined_reports t f (calls x)"
    and "global st f = Some t"
  shows "count_list (cout (fold check_node xs st)) (error_line UndefinedFunction f) =
      count_list (cout st) (error_line UndefinedFunction f) +
        undefined_reports t f (concat (map calls xs))"
  using assms
proof (induction xs arbitrary: st)
  case Nil
  then show ?case by (simp add: undefined_reports_def)
next
  case (Cons x xs)
  have "global (check_node x st) f = Some t"
    by (rule check_node_global) (rule Cons.prems)
  then have "count_list (cout (fold check_node xs (check_node x st))) (error_line UndefinedFunction f) =
      count_list (cout (check_node x st)) (error_line UndefinedFunction f) +
        undefined_reports t f (concat (map calls xs))"
    using Cons.prems(1) by (intro Cons.IH) simp_all
  then show ?case
    using Cons.prems by (simp add: undefined_reports_def)
qed

lemma check_node_reports:
  "global st f = Some t \<Longrightarrow>
   count_list (cout (check_node n st)) (error_line UndefinedFunction f) =
     count_list (cout st) (error_line UndefinedFunction f) + undefined_reports t f (calls n)"
proof (induction n arbitrary: st rule: tree_induct)
  case Null
  then show ?case by (simp add: undefined_reports_def)
next
  case (Block statements)
  have "count_list (cout (fold check_node statements (enter_scope st)))
      (error_line UndefinedFunction f) =
      count_list (cout (enter_scope st)) (error_line UndefinedFunction f) +
        undefined_reports t f (concat (map calls statements))"
    by (rule fold_check_node_reports) (use Block in simp_all)
  then show ?case by simp
next
  case (Variable ty name val)
  have "global (if in_scope (current_symbols st) name then error VariableRedefined name st
      else set_current_symbols ((current_symbols st)(name \<mapsto> ty)) st) f = Some t"
    using Variable.prems
    by (auto simp: in_scope_def current_symbols_def split: list.splits)
  from Variable.IH [OF this] show ?case
    by (simp add: cout_error_line del: error_fields(2))
next
  case (Call name args)
  let ?st1 = "if global st name = Some ''function'' then st else error UndefinedFunction name st"
  have g: "global ?st1 f = Some t"
    using Call.prems by simp
  have "count_list (cout (fold check_node args ?st1)) (error_line UndefinedFunction f) =
      count_list (cout ?st1) (error_line UndefinedFunction f) +
        undefined_reports t f (concat (map calls args))"
    by (rule fold_check_node_reports) (use Call.IH g in simp_all)
  moreover have "count_list (cout ?st1) (error_line UndefinedFunction f) =
      count_list (cout st) (error_line UndefinedFunction f) + undefined_reports t f [name]"
    using Call.prems by (auto simp: undefined_reports_def cout_error_line simp del: error_fields(2))
  ultimately show ?case
    by (simp add: undefined_reports_def)
next
  case (Name name)
  then show ?case
    by (simp add: undefined_reports_def cout_error_line del: error_fields(2))
next
  case (Assignment name val)
  then show ?case
    by (simp add: Let_def undefined_reports_def cout_error_line del: error_fields(2))
next
  case (Return val)
  then show ?case by simp
next
  case (If c t' e)
  then show ?case
    by (simp add: check_node_global undefined_reports_def)
next
  case (While c b)
  then show ?case
    by (simp add: check_node_global undefined_reports_def)
next
  case (For i c inc b)
  then show ?case
    by (simp add: check_node_global undefined_reports_def)
next
  case (BinaryOp op l r)
  then show ?case
    by (simp add: check_node_global undefined_reports_def)
next
  case (Literal ty v)
  then show ?case by (simp add: undefined_reports_def)
next
  case Other
  then show ?case by (simp add: undefined_reports_def)
qed

lemma check_function_eq:
  "check_function fn st =
     leave_scope (check_node (fbody fn) (fold declare_param (fparams fn) (enter_scope st)))"
  by (cases "fbody fn") (simp_all add: check_function_def Let_def)

lemma check_initializer_eq: "check_initializer v st = check_node (vvalue v) st"
  by (cases "vvalue v") (simp_all add: check_initializer_def)

lemma declare_global_fields [simp]:
  "global (declare_global n t e st) = map_of [(n, t)] ++ global st"
  "locals (declare_global n t e st) = locals st"
  by (auto simp: declare_global_def add_def Let_def map_add_def split: option.splits)

lemma declare_global_reports:
  "e \<noteq> UndefinedFunction \<Longrightarrow>
   count_list (cout (declare_global n t e st)) (error_line UndefinedFunction f) =
     count_list (cout st) (error_line UndefinedFunction f)"
  by (simp add: declare_global_def add_def Let_def cout_error_line del: error_fields(2))

lemma fold_declare_global:
  "global (fold (\<lambda>x. declare_global (nm x) (ty x) e) xs st) =
     map_of (map (\<lambda>x. (nm x, ty x)) xs) ++ global st"
  "locals (fold (\<lambda>x. declare_global (nm x) (ty x) e) xs st) = locals st"
  "e \<noteq> UndefinedFunction \<Longrightarrow>
   count_list (cout (fold (\<lambda>x. declare_global (nm x) (ty x) e) xs st))
     (error_line UndefinedFunction f) = count_list (cout st) (error_line UndefinedFunction f)"
proof (induction xs arbitrary: st)
  case Nil
  {
    case 1 show ?case by simp
  next
    case 2 show ?case by simp
  next
    case 3 show ?case by simp
  }
next
  case (Cons x xs)
  {
    case 1
    have "map_of (map (\<lambda>x. (nm x, ty x)) xs) ++ (map_of [(nm x, ty x)] ++ global st) =
        map_of (map (\<lambda>x. (nm x, ty x)) (x # xs)) ++ global st"
      by (rule ext) (simp add: map_add_def split: option.splits)
    then show ?case by (simp add: Cons.IH(1) del: map_of.simps)
  next
    case 2 show ?case by (simp add: Cons.IH(2))
  next
    case 3 then show ?case by (simp add: Cons.IH(3) declare_global_reports)
  }
qed

lemma phase1_fields:
  "global (phase1_functions p (phase1_globals p st)) = map_of (global_decls p) ++ global st"
  "locals (phase1_functions p (phase1_globals p st)) = locals st"
  "count_list (cout (phase1_functions p (phase1_globals p st))) (error_line UndefinedFunction f) =
     count_list (cout st) (error_line UndefinedFunction f)"
  unfolding phase1_functions_def phase1_globals_def global_decls_def
  by (simp_all add: fold_declare_global [where ty = "\<lambda>_. ''function''"] fold_declare_global)

lemma extends_declare_param: "extends st (declare_param v st)"
  by (auto simp: declare_param_def add_def Let_def extends_def map_le_def split: list.splits)

lemma declare_param_reports:
  "count_list (cout (declare_param v st)) (error_line UndefinedFunction f) =
     count_list (cout st) (error_line UndefinedFunction f)"
  by (simp add: declare_param_def add_def Let_def cout_error_line del: error_fields(2))

lemma check_function_scoped:
  "locals (check_function fn st) = locals st" "global (check_function fn st) = global st"
proof -
  have "extends (enter_scope st) (fold declare_param (fparams fn) (enter_scope st))"
    by (rule fold_extends) (rule extends_declare_param)
  then have "extends (enter_scope st)
      (check_node (fbody fn) (fold declare_param (fparams fn) (enter_scope st)))"
    by (rule extends_trans) (rule check_node_extends)
  then show "locals (check_function fn st) = locals st" "global (check_function fn st) = global st"
    by (simp_all add: check_function_eq extends_scoped del: leave_scope_fields)
qed

lemma check_function_reports:
  assumes "global st f = Some t"
  shows "count_list (cout (check_function fn st)) (error_line UndefinedFunction f) =
     count_list (cout st) (error_line UndefinedFunction f) + undefined_reports t f (calls (fbody fn))"
proof -
  let ?st2 = "fold declare_param (fparams fn) (enter_scope st)"
  have "extends (enter_scope st) ?st2"
    by (rule fold_extends) (rule extends_declare_param)
  then have "global ?st2 f = Some t"
    using assms by (simp add: extends_def)
  then have "count_list (cout (check_node (fbody fn) ?st2)) (error_line UndefinedFunction f) =
      count_list (cout ?st2) (error_line UndefinedFunction f) +
        undefined_reports t f (calls (fbody fn))"
    by (rule check_node_reports)
  moreover have "count_list (cout ?st2) (error_line UndefinedFunction f) =
      count_list (cout (enter_scope st)) (error_line UndefinedFunction f)"
    by (rule fold_invariant [where P = "\<lambda>s. count_list (cout s) (error_line UndefinedFunction f) =
      count_list (cout (enter_scope st)) (error_line UndefinedFunction f)"])
      (simp_all add: declare_param_reports)
  ultimately show ?thesis
    by (simp add: check_function_eq)
qed

lemma undefined_reports_append:
  "undefined_reports t f (xs @ ys) = undefined_reports t f xs + undefined_reports t f ys"
  by (simp add: undefined_reports_def)

lemma phase2_reports:
  "global st f = Some t \<Longrightarrow>
   count_list (cout (fold check_function fs st)) (error_line UndefinedFunction f) =
     count_list (cout st) (error_line UndefinedFunction f) +
       undefined_reports t f (concat (map (\<lambda>fn. calls (fbody fn)) fs)) \<and>
   global (fold check_function fs st) = global st \<and>
   locals (fold check_function fs st) = locals st"
proof (induction fs arbitrary: st)
  case Nil
  show ?case by (simp add: undefined_reports_def)
next
  case (Cons fn fs)
  have "global (check_function fn st) f = Some t"
    using Cons.prems by (simp add: check_function_scoped)
  from Cons.IH [OF this] show ?case
    using Cons.prems
    by (simp add: check_function_scoped check_function_reports undefined_reports_append)
qed

lemma phase3_reports:
  "global st f = Some t \<Longrightarrow>
   count_list (cout (fold check_initializer vs st)) (error_line UndefinedFunction f) =
     count_list (cout st) (error_line UndefinedFunction f) +
       undefined_reports t f (concat (map (\<lambda>v. calls (vvalue v)) vs))"
proof (induction vs arbitrary: st)
  case Nil
  show ?case by (simp add: undefined_reports_def)
next
  case (Cons v vs)
  have "global (check_initializer v st) f = Some t"
    using Cons.prems by (simp add: check_initializer_eq check_node_global)
  from Cons.IH [OF this] show ?case
    using Cons.prems
    by (simp add: check_initializer_eq check_node_reports undefined_reports_append)
qed

lemma check_reports:
  assumes "map_of (global_decls p) f = Some t"
  shows "count_list (cout (snd (check p new_ScopeAnalyzer))) (error_line UndefinedFunction f) =
     undefined_reports t f (program_calls p)"
proof -
  let ?st2 = "phase1_functions p (phase1_globals p new_ScopeAnalyzer)"
  have g: "global ?st2 f = Some t"
    using assms by (simp add: phase1_fields new_ScopeAnalyzer_def)
  have c: "count_list (cout ?st2) (error_line UndefinedFunction f) = 0"
    by (simp add: phase1_fields new_ScopeAnalyzer_def)
  have 2: "count_list (cout (phase2 p ?st2)) (error_line UndefinedFunction f) =
      undefined_reports t f (concat (map (\<lambda>fn. calls (fbody fn)) (program_functions p)))"
    and g3: "global (phase2 p ?st2) f = Some t"
    using phase2_reports [OF g, of "program_functions p"] c g by (simp_all add: phase2_def)
  show ?thesis
    using phase3_reports [OF g3, of "program_globals p"] 2
    by (simp add: check_def Let_def phase3_def program_calls_def undefined_reports_append)
qed

lemma map_of_constant:
  "f \<in> set (map nm xs) \<Longrightarrow> map_of (map (\<lambda>x. (nm x, c)) xs) f = Some c"
  by (induction xs) auto

subsection \<open>The analyzer finds the faults\<close>

lemma declare_all_simps [simp]:
  "declare_all [] s = s"
  "declare_all (d # ds) s = declare_all ds (declare_name s d)"
  "declare_all (ds @ ds') s = declare_all ds' (declare_all ds s)"
  by (simp_all add: declare_all_def)

lemma declare_name_apply:
  "declare_name s d x = (case s x of Some t \<Rightarrow> Some t | None \<Rightarrow> if x = fst d then Some (snd d) else None)"
  by (auto simp: declare_name_def split: option.splits)

lemma declare_name_eq:
  "s name = None \<Longrightarrow> declare_name s (name, ty) = s(name \<mapsto> ty)"
  "s name = Some t \<Longrightarrow> declare_name s (name, ty) = s"
  by (simp_all add: declare_name_def)

lemma declare_all_map_of: "declare_all ds s = map_of ds ++ s"
proof (induction ds arbitrary: s)
  case Nil
  show ?case by simp
next
  case (Cons d ds)
  show ?case
    by (rule ext) (simp add: Cons.IH map_add_def declare_name_apply split: option.splits)
qed

lemma dom_declare_all: "dom (declare_all ds s) = dom s \<union> fst ` set ds"
  by (auto simp: declare_all_map_of dom_map_of_conv_image_fst)

lemma not_found_find_scope: "not_found chain name \<longleftrightarrow> find_scope chain name = []"
  by (simp add: not_found_def find_scope_resolve split: option.splits)

lemma not_a_function_global: "not_a_function g name \<longleftrightarrow> g name \<noteq> Some ''function''"
  by (simp add: not_a_function_def split: option.splits)

lemma global_last: "global st = last (current_symbols st # tl (current st))"
  by (simp add: current_def current_symbols_def split: list.splits)

lemma outcome_fields [simp]:
  "errors (outcome fs ds st) = errors st @ map fst fs"
  "cout (outcome fs ds st) = cout st @ map (\<lambda>(kind, name). error_line kind name) fs"
  "current_symbols (outcome fs ds st) = declare_all ds (current_symbols st)"
  "tl (current (outcome fs ds st)) = tl (current st)"
  "locals (outcome fs [] st) = locals st"
  "global (outcome fs [] st) = global st"
  by (simp_all add: outcome_def current_def current_symbols_def set_current_symbols_def
      split: list.splits)

lemma outcome_locals: "locals st = [] \<Longrightarrow> locals (outcome fs ds st) = []"
  "locals st = [] \<Longrightarrow> global (outcome fs ds st) = declare_all ds (global st)"
  by (simp_all add: outcome_def current_symbols_def)

lemma outcome_empty [simp]: "outcome [] [] st = st"
  by (simp add: outcome_def set_current_symbols_def current_symbols_def split: list.splits)

lemma outcome_outcome [simp]:
  "outcome fs' ds' (outcome fs ds st) = outcome (fs @ fs') (ds @ ds') st"
  by (simp add: outcome_def set_current_symbols_def current_symbols_def split: list.splits)

lemma error_outcome: "error e n st = outcome [(e, n)] [] st"
  by (simp add: outcome_def error_def error_line_def set_current_symbols_def current_symbols_def
      split: list.splits)

lemma declare_outcome:
  "set_current_symbols (declare_name (current_symbols st) d) st = outcome [] [d] st"
  by (simp add: outcome_def)

lemma outcome_redeclared:
  "current_symbols st name = Some t \<Longrightarrow> outcome fs ((name, ty) # ds) st = outcome fs ds st"
  by (simp add: outcome_def declare_name_eq)

lemma leave_outcome: "leave_scope (outcome fs ds (enter_scope st)) = outcome fs [] st"
  by (simp add: outcome_def leave_scope_def enter_scope_def set_current_symbols_def
      current_symbols_def split: list.splits)

lemma current_enter: "tl (current (enter_scope st)) = current_symbols st # tl (current st)"
  by (simp add: current_hd [symmetric])

lemma fold_check_node_outcome:
  assumes "\<And>x s. x \<in> set xs \<Longrightarrow>
      check_node x s = outcome (faults x (current_symbols s) (tl (current s))) (declared x) s"
  shows "fold check_node xs st =
      outcome (faults_seq xs (current_symbols st) (tl (current st))) (concat (map declared xs)) st"
  using assms
proof (induction xs arbitrary: st)
  case Nil
  show ?case by simp
next
  case (Cons x xs)
  have "fold check_node xs (check_node x st) =
      outcome (faults_seq xs (current_symbols (check_node x st)) (tl (current (check_node x st))))
        (concat (map declared xs)) (check_node x st)"
    by (rule Cons.IH) (simp add: Cons.prems)
  then show ?case
    by (simp add: Cons.prems)
qed

lemma check_node_outcome:
  "check_node n st = outcome (faults n (current_symbols st) (tl (current st))) (declared n) st"
proof (induction n arbitrary: st rule: tree_induct)
  case (Block statements)
  have "fold check_node statements (enter_scope st) =
      outcome (faults_seq statements (current_symbols (enter_scope st))
        (tl (current (enter_scope st)))) (concat (map declared statements)) (enter_scope st)"
    by (rule fold_check_node_outcome) (rule Block)
  then show ?case
    by (simp add: leave_outcome current_enter del: current_simps)
next
  case (Variable ty name val)
  show ?case
  proof (cases "current_symbols st name")
    case None
    then show ?thesis
      using Variable [of "outcome [] [(name, ty)] st"]
      by (simp add: in_scope_def declare_name_eq(1) [symmetric] declare_outcome)
  next
    case (Some t)
    then show ?thesis
      using Variable [of "outcome [(VariableRedefined, name)] [] st"]
      by (simp add: in_scope_def error_outcome declare_name_eq(2) outcome_redeclared)
  qed
next
  case (Call name args)
  let ?st1 = "if global st name = Some ''function'' then st else error UndefinedFunction name st"
  have 1: "?st1 = outcome (if not_a_function (global st) name then [(UndefinedFunction, name)]
      else []) [] st"
    by (simp add: not_a_function_global error_outcome)
  have "fold check_node args ?st1 =
      outcome (faults_seq args (current_symbols ?st1) (tl (current ?st1)))
        (concat (map declared args)) ?st1"
    by (rule fold_check_node_outcome) (rule Call)
  then show ?case
    unfolding check_node_Call
    by (simp add: 1 global_last [symmetric] del: outcome_empty last.simps)
next
  case (Name name)
  show ?case
    by (simp add: not_found_find_scope error_outcome current_hd [symmetric])
next
  case (Assignment name val)
  have "current (check_node val st) =
      declare_all (declared val) (current_symbols st) # tl (current st)"
    by (subst current_hd) (simp add: Assignment)
  then show ?case
    by (simp add: Let_def not_found_find_scope error_outcome Assignment)
next
  case (Return val)
  then show ?case by simp
next
  case (If c t e)
  show ?case
    unfolding check_node_If by (simp add: If)
next
  case (While c b)
  show ?case by (simp add: While)
next
  case (For i c inc b)
  have "check_node b (check_node inc (check_node c (check_node i (enter_scope st)))) =
      outcome (faults (Some (ForNode i c inc b)) (current_symbols st) (tl (current st)))
        (declared i @ declared c @ declared inc @ declared b) (enter_scope st)"
    by (simp add: For current_enter del: current_simps)
  then show ?case
    unfolding check_node_For by (simp only: leave_outcome declared.simps)
next
  case (BinaryOp op l r)
  show ?case by (simp add: BinaryOp)
qed simp_all

lemma set_current_symbols_same: "set_current_symbols (current_symbols st) st = st"
  by (simp add: set_current_symbols_def current_symbols_def split: list.splits)

lemma new_ScopeAnalyzer_fields:
  "errors new_ScopeAnalyzer = []" "cout new_ScopeAnalyzer = []"
  "locals new_ScopeAnalyzer = []" "global new_ScopeAnalyzer = Map.empty"
  by (simp_all add: new_ScopeAnalyzer_def)

lemma declare_param_outcome:
  "declare_param v st =
     outcome (if vname v \<in> dom (current_symbols st) then [(VariableRedefined, vname v)] else [])
       [(vname v, vtype v)] st"
  by (auto simp: declare_param_def add_def Let_def error_outcome declare_outcome [symmetric]
      declare_name_eq outcome_redeclared set_current_symbols_same)

lemma declare_global_outcome:
  "locals st = [] \<Longrightarrow>
   declare_global n t e st =
     outcome (if n \<in> dom (global st) then [(e, n)] else []) [(n, t)] st"
  by (auto simp: declare_global_def add_def Let_def outcome_def error_def error_line_def
      set_current_symbols_def current_symbols_def declare_name_eq)

lemma fold_declare_param_outcome:
  "dom (current_symbols st) = set seen \<Longrightarrow>
   fold declare_param ps st =
     outcome (redeclarations VariableRedefined seen (map vname ps))
       (map (\<lambda>param. (vname param, vtype param)) ps) st"
proof (induction ps arbitrary: st seen)
  case Nil
  show ?case by simp
next
  case (Cons p ps)
  have "dom (current_symbols (declare_param p st)) = set (vname p # seen)"
    using Cons.prems by (simp add: declare_param_outcome dom_declare_all del: declare_all_simps)
  from Cons.IH [OF this] show ?case
    using Cons.prems by (simp add: declare_param_outcome)
qed

lemma fold_declare_global_outcome:
  "locals st = [] \<Longrightarrow> dom (global st) = set seen \<Longrightarrow>
   fold (\<lambda>x. declare_global (nm x) (ty x) e) xs st =
     outcome (redeclarations e seen (map nm xs)) (map (\<lambda>x. (nm x, ty x)) xs) st"
proof (induction xs arbitrary: st seen)
  case Nil
  show ?case by simp
next
  case (Cons x xs)
  let ?st1 = "declare_global (nm x) (ty x) e st"
  have 1: "?st1 = outcome (if nm x \<in> dom (global st) then [(e, nm x)] else []) [(nm x, ty x)] st"
    using Cons.prems(1) by (rule declare_global_outcome)
  have "locals ?st1 = []" "dom (global ?st1) = set (nm x # seen)"
    using Cons.prems by (simp_all add: 1 outcome_locals dom_declare_all del: declare_all_simps)
  from Cons.IH [OF this] show ?case
    using Cons.prems by (simp add: 1)
qed

lemma check_function_outcome:
  "locals st = [] \<Longrightarrow> check_function fn st = outcome (function_faults (global st) fn) [] st"
proof -
  assume l: "locals st = []"
  have "fold declare_param (fparams fn) (enter_scope st) =
      outcome (redeclarations VariableRedefined [] (map vname (fparams fn)))
        (map (\<lambda>param. (vname param, vtype param)) (fparams fn)) (enter_scope st)"
    by (rule fold_declare_param_outcome) simp
  moreover have "current_symbols st = global st" "tl (current st) = []"
    using l by (simp_all add: current_symbols_def current_def)
  ultimately show ?thesis
    by (simp add: check_function_eq check_node_outcome function_faults_def leave_outcome
        current_enter del: current_simps)
qed

lemma phase2_outcome:
  "locals st = [] \<Longrightarrow>
   fold check_function fs st = outcome (concat (map (function_faults (global st)) fs)) [] st"
proof (induction fs arbitrary: st)
  case Nil
  show ?case by simp
next
  case (Cons fn fs)
  have "locals (check_function fn st) = []" "global (check_function fn st) = global st"
    using Cons.prems by (simp_all add: check_function_scoped)
  with Cons.IH [of "check_function fn st"] show ?case
    using Cons.prems by (simp add: check_function_outcome)
qed

lemma phase3_outcome:
  "locals st = [] \<Longrightarrow>
   fold check_initializer vs st =
     outcome (initializer_faults (global st) vs) (concat (map (\<lambda>v. declared (vvalue v)) vs)) st"
proof (induction vs arbitrary: st)
  case Nil
  show ?case by simp
next
  case (Cons v vs)
  let ?st1 = "check_initializer v st"
  have 1: "?st1 = outcome (faults (vvalue v) (global st) []) (declared (vvalue v)) st"
    using Cons.prems
    by (simp add: check_initializer_eq check_node_outcome current_symbols_def current_def)
  have "locals ?st1 = []" and "global ?st1 = declare_all (declared (vvalue v)) (global st)"
    using Cons.prems by (simp_all add: 1 outcome_locals)
  with Cons.IH [of ?st1] show ?case
    by (simp add: 1)
qed

lemma check_outcome:
  "snd (check program new_ScopeAnalyzer) =
     outcome (program_faults program)
       (global_decls program @ concat (map (\<lambda>v. declared (vvalue v)) (program_globals program)))
       new_ScopeAnalyzer"
proof -
  let ?st1 = "phase1_globals program new_ScopeAnalyzer"
  let ?st2 = "phase1_functions program ?st1"
  let ?st3 = "phase2 program ?st2"
  let ?D1 = "map (\<lambda>var. (vname var, vtype var)) (program_globals program)"
  let ?D2 = "map (\<lambda>func. (fname func, ''function'')) (program_functions program)"
  let ?F1 = "redeclarations VariableRedefined [] (map vname (program_globals program))"
  let ?F2 = "redeclarations FunctionRedefined (map vname (program_globals program))
      (map fname (program_functions program))"
  have 1: "?st1 = outcome ?F1 ?D1 new_ScopeAnalyzer"
    unfolding phase1_globals_def
    by (rule fold_declare_global_outcome) (simp_all add: new_ScopeAnalyzer_fields)
  have l1: "locals ?st1 = []"
    and g1: "dom (global ?st1) = set (map vname (program_globals program))"
    unfolding 1 by (simp_all add: outcome_locals dom_declare_all image_image
        new_ScopeAnalyzer_fields del: declare_all_simps)
  have "?st2 = outcome ?F2 ?D2 ?st1"
    unfolding phase1_functions_def
    using l1 g1 by (rule fold_declare_global_outcome [where ty = "\<lambda>_. ''function''"])
  then have 2: "?st2 = outcome (?F1 @ ?F2) (global_decls program) new_ScopeAnalyzer"
    by (simp add: 1 global_decls_def)
  have l2: "locals ?st2 = []" and g2: "global ?st2 = global_scope program"
    unfolding 2
    by (simp_all add: outcome_locals global_scope_def new_ScopeAnalyzer_fields
        del: declare_all_simps)
  have 3: "?st3 = outcome (concat (map (function_faults (global_scope program))
      (program_functions program))) [] ?st2"
    unfolding phase2_def using phase2_outcome [OF l2] by (simp add: g2)
  have l3: "locals ?st3 = []" and g3: "global ?st3 = global_scope program"
    by (simp_all add: 3 l2 g2)
  have 4: "phase3 program ?st3 =
      outcome (initializer_faults (global_scope program) (program_globals program))
        (concat (map (\<lambda>v. declared (vvalue v)) (program_globals program))) ?st3"
    unfolding phase3_def using phase3_outcome [OF l3] by (simp add: g3)
  show ?thesis
    unfolding check_def Let_def snd_conv
    by (subst 4, subst 3, subst 2) (simp add: program_faults_def del: declare_all_simps)
qed

lemma check_faults:
  "errors (snd (check program new_ScopeAnalyzer)) = map fst (program_faults program)"
  "cout (snd (check program new_ScopeAnalyzer)) =
     map (\<lambda>(kind, name). error_line kind name) (program_faults program)"
  by (simp_all add: check_outcome new_ScopeAnalyzer_fields)

text \<open>The faults of a body with an unknown name, an unknown call and a redeclaration.\<close>

lemma three_faults_in_a_body:
  "program_faults (main_with [Some (NameNode ''a''), Some (CallNode ''g'' [Some (NameNode ''b'')]),
      Some (VariableNode ''int'' ''x'' None), Some (VariableNode ''int'' ''x'' None)]) =
     [(UndeclaredVariable, ''a''), (UndefinedFunction, ''g''), (UndeclaredVariable, ''b''),
      (VariableRedefined, ''x'')]"
  by (simp add: program_faults_def main_with_def function_faults_def global_scope_def
      global_decls_def not_found_def not_a_function_def declare_name_def)

subsection \<open>The work of the traversal\<close>

lemma T_check_nodes_le:
  "(\<And>x s. x \<in> set xs \<Longrightarrow> T_check_node x s \<le> ast_size x) \<Longrightarrow>
   T_check_nodes xs st \<le> sum_list (map ast_size xs)"
proof (induction xs arbitrary: st)
  case Nil
  show ?case by simp
next
  case (Cons x xs)
  have "T_check_node x st \<le> ast_size x"
    by (rule Cons.prems) simp
  moreover have "T_check_nodes xs (check_node x st) \<le> sum_list (map ast_size xs)"
    by (rule Cons.IH) (simp add: Cons.prems)
  ultimately show ?case by simp
qed

lemma T_check_node_le: "T_check_node n st \<le> ast_size n"
proof (induction n arbitrary: st rule: tree_induct)
  case (Block statements)
  then show ?case by (simp add: T_check_nodes_le)
next
  case (Variable ty name val)
  have "(if val \<noteq> None then T_check_node val s else 0) \<le> ast_size val" for s
    using Variable by simp
  then show ?case
    unfolding T_check_node.simps Let_def ast_size.simps
    by (intro add_mono order_refl)
next
  case (Call name args)
  then show ?case by (simp add: Let_def T_check_nodes_le)
next
  case (Return val)
  have "(if val \<noteq> None then T_check_node val s else 0) \<le> ast_size val" for s
    using Return by simp
  then show ?case
    unfolding T_check_node.simps Let_def ast_size.simps
    by (intro add_mono order_refl)
next
  case (If c t e)
  have "(if e \<noteq> None then T_check_node e s else 0) \<le> ast_size e" for s
    using If by simp
  then show ?case
    unfolding T_check_node.simps Let_def ast_size.simps
    by (intro add_mono order_refl If)
next
  case (While c b)
  then show ?case by (simp add: add_mono)
next
  case (For i c inc b)
  have "(if i \<noteq> None then T_check_node i s else 0) \<le> ast_size i"
    "(if c \<noteq> None then T_check_node c s else 0) \<le> ast_size c"
    "(if inc \<noteq> None then T_check_node inc s else 0) \<le> ast_size inc"
    "(if b \<noteq> None then T_check_node b s else 0) \<le> ast_size b" for s
    using For by simp_all
  then show ?case
    unfolding T_check_node.simps Let_def ast_size.simps
    by (intro add_mono order_refl)
next
  case (BinaryOp op l r)
  then show ?case by (simp add: add_mono)
qed simp_all

lemma T_check_function_le:
  "T_check_function func st \<le> 1 + length (fparams func) + ast_size (fbody func)"
  using T_check_node_le [of "fbody func"]
  by (simp add: T_check_function_def Let_def trans_le_add1)

lemma T_phase2_le:
  "T_phase2 funcs st \<le>
     2 * sum_list (map (\<lambda>func. 1 + length (fparams func) + ast_size (fbody func)) funcs)"
proof (induction funcs arbitrary: st)
  case Nil
  show ?case by simp
next
  case (Cons func funcs)
  show ?case
    using Cons.IH [of "check_function func st"] T_check_function_le [of func st]
    by simp
qed

lemma T_phase3_le:
  "T_phase3 vars st \<le> sum_list (map (\<lambda>var. 1 + ast_size (vvalue var)) vars)"
proof (induction vars arbitrary: st)
  case Nil
  show ?case by simp
next
  case (Cons var vars)
  show ?case
    using Cons.IH [of "check_initializer var st"] T_check_node_le [of "vvalue var" st]
    by (simp add: trans_le_add1)
qed

lemma length_le_sum_list: "length xs \<le> sum_list (map (\<lambda>x. 1 + f x) xs)"
  by (induction xs) simp_all

text \<open>The definitions that unfold when the analyzer runs on a concrete program.\<close>

lemmas run_defs =
  check_def phase1_globals_def phase1_functions_def phase2_def phase3_def declare_global_def
  check_function_def declare_param_def check_initializer_def new_ScopeAnalyzer_def
  add_def in_scope_def error_def message_def enter_scope_def leave_scope_def
  current_def current_symbols_def set_current_symbols_def getErrors_def Let_def

subsection \<open>The scenarios of the specification\<close>

text \<open>
  The analyzer on the concrete scenarios 2 to 6 of the specification: an undeclared
  variable and an undefined function in global initializers, a variable declared twice in
  one body, two functions of one name, and a shadowing declaration in a nested block.
\<close>

lemma scenario_undeclared_variable:
  "check \<lparr>program_functions = [],
      program_globals = [\<lparr>vtype = ''int'', vname = ''result'',
        vvalue = Some (BinaryOpNode ''*'' (Some (NameNode ''unknown_var''))
          (Some (LiteralNode ''int'' ''2'')))\<rparr>]\<rparr> new_ScopeAnalyzer =
   (False, \<lparr>errors = [UndeclaredVariable], cout = [''Error: Undeclared variable: unknown_var''],
      locals = [], global = [''result'' \<mapsto> ''int'']\<rparr>)"
  by (simp add: run_defs)

lemma scenario_undefined_function:
  "check \<lparr>program_functions = [],
      program_globals = [\<lparr>vtype = ''int'', vname = ''value'',
        vvalue = Some (CallNode ''unknown_func'' [])\<rparr>]\<rparr> new_ScopeAnalyzer =
   (False, \<lparr>errors = [UndefinedFunction], cout = [''Error: Undefined function: unknown_func''],
      locals = [], global = [''value'' \<mapsto> ''int'']\<rparr>)"
  by (simp add: run_defs)

lemma scenario_variable_redefined:
  "check (main_with [Some (VariableNode ''int'' ''x'' (Some (LiteralNode ''int'' ''5''))),
      Some (VariableNode ''int'' ''x'' (Some (LiteralNode ''int'' ''10'')))]) new_ScopeAnalyzer =
   (False, \<lparr>errors = [VariableRedefined], cout = [''Error: Variable redefined: x''],
      locals = [], global = [''main'' \<mapsto> ''function'']\<rparr>)"
  by (simp add: main_with_def run_defs)

lemma scenario_function_redefined:
  "check \<lparr>program_functions =
       [\<lparr>return_type = ''int'', fname = ''calculate'', fparams = [], fbody = None\<rparr>,
        \<lparr>return_type = ''void'', fname = ''calculate'', fparams = [], fbody = None\<rparr>],
      program_globals = []\<rparr> new_ScopeAnalyzer =
   (False, \<lparr>errors = [FunctionRedefined], cout = [''Error: Function redefined: calculate''],
      locals = [], global = [''calculate'' \<mapsto> ''function'']\<rparr>)"
  by (simp add: run_defs)

lemma scenario_shadowing:
  "check (main_with [Some (VariableNode ''int'' ''x'' (Some (LiteralNode ''int'' ''1''))),
      Some (BlockNode [Some (VariableNode ''int'' ''x'' (Some (LiteralNode ''int'' ''2'')))])])
      new_ScopeAnalyzer =
   (True, \<lparr>errors = [], cout = [], locals = [], global = [''main'' \<mapsto> ''function'']\<rparr>)"
  by (simp add: main_with_def run_defs)

section \<open>Properties of the analyzer\<close>

subsection \<open>Declaration before initializer\<close>

text \<open>
  C3 (as amended). For every \<^verbatim>\<open>VariableNode\<close> the declaration attempt into the current scope
  happens before the initializer is checked: checking the declaration with its
  initializer is checking the declaration alone and then the initializer, and after the
  declaration alone the name is bound in the current scope. Therefore a self-referential
  initializer \<^verbatim>\<open>T x = x;\<close> whose type tag \<^verbatim>\<open>T\<close> is not the empty string, with \<^verbatim>\<open>x\<close> not yet
  bound in the current scope, records no error and prints nothing.
\<close>

theorem declaration_before_initializer:
  "check_node (Some (VariableNode ty x val)) st =
     check_node val (check_node (Some (VariableNode ty x None)) st) \<and>
   in_scope (current_symbols (check_node (Some (VariableNode ty x None)) st)) x \<and>
   (ty \<noteq> '''' \<and> \<not> in_scope (current_symbols st) x \<longrightarrow>
      errors (check_node (Some (VariableNode ty x (Some (NameNode x)))) st) = errors st \<and>
      cout (check_node (Some (VariableNode ty x (Some (NameNode x)))) st) = cout st)"
proof (intro conjI impI)
  show "check_node (Some (VariableNode ty x val)) st =
          check_node val (check_node (Some (VariableNode ty x None)) st)"
    by simp
  show "in_scope (current_symbols (check_node (Some (VariableNode ty x None)) st)) x"
    by (simp add: in_scope_def)
next
  assume a: "ty \<noteq> [] \<and> \<not> in_scope (current_symbols st) x"
  let ?st1 = "set_current_symbols ((current_symbols st)(x \<mapsto> ty)) st"
  have "find_scope (current ?st1) x = ty"
    by (rule find_scope_current) simp
  then have "find_scope (current ?st1) x \<noteq> []"
    using a by simp
  then have r: "check_node (Some (VariableNode ty x (Some (NameNode x)))) st = ?st1"
    using a by simp
  show "errors (check_node (Some (VariableNode ty x (Some (NameNode x)))) st) = errors st"
    by (simp only: r set_current_symbols_fields)
  show "cout (check_node (Some (VariableNode ty x (Some (NameNode x)))) st) = cout st"
    by (simp only: r set_current_symbols_fields)
qed

text \<open>\<^verbatim>\<open>int x = x;\<close> as the first statement of a function body.\<close>

theorem declaration_before_initializer_witness:
  "''int'' \<noteq> '''' \<and> \<not> in_scope (current_symbols (enter_scope new_ScopeAnalyzer)) ''x'' \<and>
   errors (check_node (Some (VariableNode ''int'' ''x'' (Some (NameNode ''x''))))
     (enter_scope new_ScopeAnalyzer)) = []"
  using declaration_before_initializer [of "''int''" "''x''" None "enter_scope new_ScopeAnalyzer"]
  by (simp add: in_scope_def new_ScopeAnalyzer_def)

text \<open>
  With the empty string as type tag (the tag of a default-constructed \<^verbatim>\<open>VariableNode\<close>) the
  self-referential initializer is reported: the lookup returns the tag, which is the
  not-found value.
\<close>

theorem self_initializer_empty_type_counterexample:
  "getErrors (snd (check (main_with [Some (VariableNode '''' ''x'' (Some (NameNode ''x'')))])
      new_ScopeAnalyzer)) = [UndeclaredVariable]"
  by (simp add: main_with_def run_defs)

subsection \<open>Shadowing\<close>

text \<open>
  C7 (as amended). A name declared in a scope (\<open>outer\<close> is the state after that declaration)
  and declared again in a scope opened directly inside it, such as a nested block: the
  inner declaration records no error and prints nothing, and once the inner scope is left
  the chain of scopes is that of \<open>outer\<close> again. When the name was new to the outer scope,
  the two declarations together record no error. When the inner declaration's type tag is
  not the empty string, a lookup inside the inner scope returns the inner binding's type
  and a \<^verbatim>\<open>NameNode\<close> for the name there records no error. The same holds at any depth
  (\<open>deep\<close>): in a scope that does not bind the name itself, whatever the scopes its parent
  chain reaches bind.
\<close>

theorem shadowing_is_legal:
  "(let outer = check_node (Some (VariableNode t1 x None)) st;
        inner = check_node (Some (VariableNode t2 x None)) (enter_scope outer)
    in in_scope (current_symbols outer) x \<and>
       check_node (Some (BlockNode (Some (VariableNode t2 x None) # statements))) outer =
         leave_scope (fold check_node statements inner) \<and>
       errors inner = errors outer \<and> cout inner = cout outer \<and>
       current (leave_scope inner) = current outer \<and>
       (\<not> in_scope (current_symbols st) x \<longrightarrow> errors inner = errors st) \<and>
       (t2 \<noteq> '''' \<longrightarrow>
          find_scope (current inner) x = t2 \<and> check_node (Some (NameNode x)) inner = inner)) \<and>
   (\<not> in_scope (current_symbols deep) x \<longrightarrow>
      errors (check_node (Some (VariableNode t2 x None)) deep) = errors deep \<and>
      (t2 \<noteq> '''' \<longrightarrow>
         find_scope (current (check_node (Some (VariableNode t2 x None)) deep)) x = t2 \<and>
         check_node (Some (NameNode x)) (check_node (Some (VariableNode t2 x None)) deep) =
           check_node (Some (VariableNode t2 x None)) deep))"
proof -
  have n: "find_scope (current s) x = t2 \<and> (t2 \<noteq> [] \<longrightarrow> check_node (Some (NameNode x)) s = s)"
    if "current_symbols s x = Some t2" for s
    using find_scope_current [OF that] by simp
  have "\<not> in_scope (current_symbols deep) x \<longrightarrow>
      errors (check_node (Some (VariableNode t2 x None)) deep) = errors deep \<and>
      current_symbols (check_node (Some (VariableNode t2 x None)) deep) x = Some t2"
    by simp
  moreover have "current_symbols (check_node (Some (VariableNode t2 x None))
      (enter_scope (check_node (Some (VariableNode t1 x None)) st))) x = Some t2"
    by (simp add: in_scope_def)
  moreover have "in_scope (current_symbols (check_node (Some (VariableNode t1 x None)) st)) x"
    "check_node (Some (BlockNode (Some (VariableNode t2 x None) # statements)))
        (check_node (Some (VariableNode t1 x None)) st) =
      leave_scope (fold check_node statements (check_node (Some (VariableNode t2 x None))
        (enter_scope (check_node (Some (VariableNode t1 x None)) st))))"
    "errors (check_node (Some (VariableNode t2 x None))
        (enter_scope (check_node (Some (VariableNode t1 x None)) st))) =
      errors (check_node (Some (VariableNode t1 x None)) st)"
    "cout (check_node (Some (VariableNode t2 x None))
        (enter_scope (check_node (Some (VariableNode t1 x None)) st))) =
      cout (check_node (Some (VariableNode t1 x None)) st)"
    "current (leave_scope (check_node (Some (VariableNode t2 x None))
        (enter_scope (check_node (Some (VariableNode t1 x None)) st)))) =
      current (check_node (Some (VariableNode t1 x None)) st)"
    "\<not> in_scope (current_symbols st) x \<longrightarrow>
      errors (check_node (Some (VariableNode t2 x None))
        (enter_scope (check_node (Some (VariableNode t1 x None)) st))) = errors st"
    by (simp_all add: in_scope_def current_def)
  ultimately show ?thesis
    unfolding Let_def using n by blast
qed

text \<open>
  \<^verbatim>\<open>int x; { float x; x; }\<close> in a function body, and \<^verbatim>\<open>float x;\<close> two scopes below a global
  \<^verbatim>\<open>int x\<close>.
\<close>

theorem shadowing_is_legal_witness:
  "\<not> in_scope (current_symbols (enter_scope new_ScopeAnalyzer)) ''x'' \<and>
   \<not> in_scope (current_symbols (enter_scope (enter_scope (fresh [''x'' \<mapsto> ''int''])))) ''x'' \<and>
   ''float'' \<noteq> '''' \<and>
   errors (check_node (Some (VariableNode ''float'' ''x'' None))
     (enter_scope (check_node (Some (VariableNode ''int'' ''x'' None))
        (enter_scope new_ScopeAnalyzer)))) = [] \<and>
   errors (check_node (Some (BlockNode [Some (VariableNode ''float'' ''x'' None),
        Some (NameNode ''x'')]))
     (check_node (Some (VariableNode ''int'' ''x'' None)) (enter_scope new_ScopeAnalyzer))) = [] \<and>
   find_scope (current (check_node (Some (VariableNode ''float'' ''x'' None))
     (enter_scope (enter_scope (fresh [''x'' \<mapsto> ''int'']))))) ''x'' = ''float''"
  using shadowing_is_legal [of "''int''" "''x''" "enter_scope new_ScopeAnalyzer" "''float''"
      "[Some (NameNode ''x'')]" "enter_scope (enter_scope (fresh [''x'' \<mapsto> ''int'']))"]
  by (simp add: Let_def in_scope_def new_ScopeAnalyzer_def fresh_def)

text \<open>
  With the empty type tag for the inner declaration, \<^verbatim>\<open>int x; { "" x; x; }\<close>, the reference
  inside the inner block is reported: the lookup returns the inner tag, which is the
  not-found value.
\<close>

theorem shadowing_empty_type_counterexample:
  "getErrors (snd (check (main_with [Some (VariableNode ''int'' ''x'' None),
      Some (BlockNode [Some (VariableNode '''' ''x'' None), Some (NameNode ''x'')])])
      new_ScopeAnalyzer)) = [UndeclaredVariable] \<and>
   cout (snd (check (main_with [Some (VariableNode ''int'' ''x'' None),
      Some (BlockNode [Some (VariableNode '''' ''x'' None), Some (NameNode ''x'')])])
      new_ScopeAnalyzer)) = [''Error: Undeclared variable: x'']"
  by (simp add: main_with_def run_defs)

subsection \<open>The public contract\<close>

text \<open>
  C8. On a new analyzer, \<^verbatim>\<open>check\<close> returns true exactly when the error vector it leaves is
  empty, that is when the call recorded no error; \<^verbatim>\<open>passed\<close> agrees with it, and
  \<^verbatim>\<open>errorCount\<close> is the length of what \<^verbatim>\<open>getErrors\<close> returns. From any state of the analyzer
  the value returned is that of \<^verbatim>\<open>passed\<close> afterwards.
\<close>

theorem check_true_iff_no_errors:
  "fst (check program new_ScopeAnalyzer) =
     (getErrors (snd (check program new_ScopeAnalyzer)) = []) \<and>
   passed (snd (check program new_ScopeAnalyzer)) = fst (check program new_ScopeAnalyzer) \<and>
   errorCount (snd (check program new_ScopeAnalyzer)) =
     length (getErrors (snd (check program new_ScopeAnalyzer))) \<and>
   fst (check program st) = passed (snd (check program st)) \<and>
   errorCount (snd (check program st)) = length (getErrors (snd (check program st)))"
  by (simp add: check_def Let_def getErrors_def passed_def errorCount_def)

subsection \<open>The empty string as the not-found value\<close>

text \<open>
  C10. \<^verbatim>\<open>Scope::find\<close> returns the empty string both when no scope of the chain binds the
  name and when the nearest binding's type tag is the empty string. So a \<^verbatim>\<open>NameNode\<close>, or
  the target of an \<^verbatim>\<open>AssignmentNode\<close> (resolved after its value has been checked), whose
  nearest binding has the empty type tag records \<^verbatim>\<open>UndeclaredVariable\<close>; and declaring a
  name that is new to the current scope with the empty type tag makes such a binding.
\<close>

theorem empty_type_is_not_found:
  "find_scope chain x = (case resolve chain x of None \<Rightarrow> '''' | Some ty \<Rightarrow> ty) \<and>
   (resolve (current st) x = Some '''' \<longrightarrow>
      check_node (Some (NameNode x)) st = error UndeclaredVariable x st) \<and>
   (resolve (current (check_node val st)) x = Some '''' \<longrightarrow>
      check_node (Some (AssignmentNode x val)) st =
        error UndeclaredVariable x (check_node val st)) \<and>
   (\<not> in_scope (current_symbols st) x \<longrightarrow>
      resolve (current (check_node (Some (VariableNode '''' x None)) st)) x = Some '''')"
proof (intro conjI impI)
  show "find_scope chain x = (case resolve chain x of None \<Rightarrow> '''' | Some ty \<Rightarrow> ty)"
    by (rule find_scope_resolve)
next
  assume "resolve (current st) x = Some ''''"
  then show "check_node (Some (NameNode x)) st = error UndeclaredVariable x st"
    by (simp add: find_scope_resolve)
next
  assume "resolve (current (check_node val st)) x = Some ''''"
  then show "check_node (Some (AssignmentNode x val)) st =
      error UndeclaredVariable x (check_node val st)"
    by (simp add: find_scope_resolve Let_def)
next
  assume "\<not> in_scope (current_symbols st) x"
  then show "resolve (current (check_node (Some (VariableNode '''' x None)) st)) x = Some ''''"
    by (simp add: in_scope_def current_def set_current_symbols_def current_symbols_def
        split: list.splits)
qed

text \<open>A global \<^verbatim>\<open>x\<close> declared with the empty type tag, then read and assigned.\<close>

theorem empty_type_is_not_found_witness:
  "\<not> in_scope (current_symbols new_ScopeAnalyzer) ''x'' \<and>
   resolve (current (fresh [''x'' \<mapsto> ''''])) ''x'' = Some '''' \<and>
   resolve (current (check_node None (fresh [''x'' \<mapsto> '''']))) ''x'' = Some '''' \<and>
   errors (check_node (Some (NameNode ''x'')) (fresh [''x'' \<mapsto> ''''])) = [UndeclaredVariable] \<and>
   errors (check_node (Some (AssignmentNode ''x'' None)) (fresh [''x'' \<mapsto> ''''])) =
     [UndeclaredVariable] \<and>
   check_node (Some (VariableNode '''' ''x'' None)) new_ScopeAnalyzer = fresh [''x'' \<mapsto> '''']"
  using empty_type_is_not_found [of "[]" "''x''" "fresh [''x'' \<mapsto> '''']" None]
    empty_type_is_not_found [of "[]" "''x''" new_ScopeAnalyzer None]
  by (simp add: fresh_def current_def in_scope_def new_ScopeAnalyzer_def current_symbols_def
      set_current_symbols_def add_def)

subsection \<open>The scope of a for loop\<close>




subsection \<open>Error records\<close>

text \<open>
  C1 (as amended). Every error record returned by \<^verbatim>\<open>getErrors\<close> is one of the four error
  kinds and nothing more (\<^verbatim>\<open>errors\<close> is a vector of \<^verbatim>\<open>ScopeError\<close>): the records are the kinds
  of the program's faults, in order. The offending name is not part of the record: it
  appears only in the message written to the standard output when the error is found, one
  message for each record and in the same order, each being the message of its record's
  kind for the offending name of that fault.
\<close>

theorem error_record_is_kind_only:
  "getErrors (snd (check program new_ScopeAnalyzer)) = map fst (program_faults program) \<and>
   cout (snd (check program new_ScopeAnalyzer)) =
     map (\<lambda>(kind, name). error_line kind name) (program_faults program)"
  by (simp add: getErrors_def check_faults)

text \<open>
  Two programs with different offending names return the same records; only the
  messages written to the standard output tell the names apart.
\<close>

theorem error_record_without_name_counterexample:
  "getErrors (snd (check (main_with [Some (NameNode ''a'')]) new_ScopeAnalyzer)) =
     getErrors (snd (check (main_with [Some (NameNode ''b'')]) new_ScopeAnalyzer)) \<and>
   cout (snd (check (main_with [Some (NameNode ''a'')]) new_ScopeAnalyzer)) =
     [''Error: Undeclared variable: a''] \<and>
   cout (snd (check (main_with [Some (NameNode ''b'')]) new_ScopeAnalyzer)) =
     [''Error: Undeclared variable: b'']"
  by (simp add: main_with_def run_defs)

subsection \<open>Calls\<close>

text \<open>
  C2 (as amended). A call whose name is the name of a function of the program's function
  list, wherever that function stands in the list, and is not the name of a global
  variable, never produces an \<^verbatim>\<open>UndefinedFunction\<close> error: phase 1 has bound every such name
  to \<^verbatim>\<open>"function"\<close> in the global scope before any body is walked, so the message reporting
  the name as an undefined function is never printed.
\<close>

theorem declared_function_is_callable:
  assumes "f \<in> set (map fname (program_functions program))"
    and "f \<notin> set (map vname (program_globals program))"
  shows "error_line UndefinedFunction f \<notin> set (cout (snd (check program new_ScopeAnalyzer)))"
proof -
  have "map_of (map (\<lambda>var. (vname var, vtype var)) (program_globals program)) f = None"
    using assms(2) by (simp add: map_of_eq_None_iff image_image)
  then have "map_of (global_decls program) f = Some ''function''"
    using map_of_constant [OF assms(1), of "''function''"]
    by (simp add: global_decls_def map_add_def)
  from check_reports [OF this] show ?thesis
    by (simp add: undefined_reports_def count_list_0_iff)
qed

text \<open>The forward call of \<open>forward_call_program\<close>.\<close>

theorem declared_function_is_callable_witness:
  "''later'' \<in> set (map fname (program_functions forward_call_program)) \<and>
   ''later'' \<notin> set (map vname (program_globals forward_call_program)) \<and>
   error_line UndefinedFunction ''later'' \<notin>
     set (cout (snd (check forward_call_program new_ScopeAnalyzer)))"
  using declared_function_is_callable [of "''later''" forward_call_program]
  by (simp add: forward_call_program_def)

text \<open>
  Globals are declared before functions and share their namespace: when a global variable
  \<^verbatim>\<open>int f\<close> stands beside the function \<^verbatim>\<open>f\<close>, the name stays bound to \<^verbatim>\<open>int\<close> and the call
  \<^verbatim>\<open>f()\<close> is reported.
\<close>

theorem function_hidden_by_global_counterexample:
  "''f'' \<in> set (map fname (program_functions (call_global_program ''int''
      [\<lparr>return_type = ''int'', fname = ''f'', fparams = [], fbody = Some (BlockNode [])\<rparr>]))) \<and>
   getErrors (snd (check (call_global_program ''int''
      [\<lparr>return_type = ''int'', fname = ''f'', fparams = [], fbody = Some (BlockNode [])\<rparr>])
      new_ScopeAnalyzer)) = [FunctionRedefined, UndefinedFunction] \<and>
   cout (snd (check (call_global_program ''int''
      [\<lparr>return_type = ''int'', fname = ''f'', fparams = [], fbody = Some (BlockNode [])\<rparr>])
      new_ScopeAnalyzer)) = [''Error: Function redefined: f'', ''Error: Undefined function: f'']"
  by (simp add: call_global_program_def run_defs)

text \<open>
  C4 (as amended). When the first global variable declaration of a name has a type tag
  other than the string \<^verbatim>\<open>"function"\<close>, every call of that name, in a function body or in a
  global initializer, produces an \<^verbatim>\<open>UndefinedFunction\<close> error: the message reporting the name
  is printed once for each such call.
\<close>

theorem call_of_global_variable:
  assumes "map_of (map (\<lambda>var. (vname var, vtype var)) (program_globals program)) f = Some t"
    and "t \<noteq> ''function''"
  shows "count_list (cout (snd (check program new_ScopeAnalyzer))) (error_line UndefinedFunction f) =
     count_list (program_calls program) f"
proof -
  have "map_of (global_decls program) f = Some t"
    using assms(1) by (simp add: global_decls_def map_add_def)
  from check_reports [OF this] show ?thesis
    using assms(2) by (simp add: undefined_reports_def)
qed

text \<open>The global \<^verbatim>\<open>int f\<close> and the call \<^verbatim>\<open>f()\<close>.\<close>

theorem call_of_global_variable_witness:
  "map_of (map (\<lambda>var. (vname var, vtype var)) (program_globals (call_global_program ''int'' [])))
     ''f'' = Some ''int'' \<and> ''int'' \<noteq> ''function'' \<and>
   count_list (program_calls (call_global_program ''int'' [])) ''f'' = 1 \<and>
   count_list (cout (snd (check (call_global_program ''int'' []) new_ScopeAnalyzer)))
     (error_line UndefinedFunction ''f'') = 1"
  using call_of_global_variable [of "call_global_program ''int'' []" "''f''" "''int''"]
  by (simp add: call_global_program_def program_calls_def)

text \<open>
  A global variable whose type tag is the string \<^verbatim>\<open>"function"\<close> passes for a function: the
  call of it is not reported and \<^verbatim>\<open>check\<close> returns true.
\<close>

theorem global_of_type_function_counterexample:
  "map_of (map (\<lambda>var. (vname var, vtype var))
     (program_globals (call_global_program ''function'' []))) ''f'' = Some ''function'' \<and>
   program_calls (call_global_program ''function'' []) = [''f''] \<and>
   getErrors (snd (check (call_global_program ''function'' []) new_ScopeAnalyzer)) = [] \<and>
   fst (check (call_global_program ''function'' []) new_ScopeAnalyzer)"
  by (simp add: call_global_program_def program_calls_def run_defs)

subsection \<open>Completeness and order of the errors\<close>

text \<open>
  C6. One \<^verbatim>\<open>check\<close> on a new analyzer records every error and never stops early: the
  sequence \<^verbatim>\<open>getErrors\<close> returns holds the kind of every fault of the program, in the order
  of the specification. First the globals declared twice, in declaration order, then the
  functions whose name is taken, in declaration order; then for each function in
  declaration order all the faults of its parameters and body; then for each global in
  declaration order all the faults of its initializer. The faults are those of
  \<open>faults\<close>, which is defined on the tree and the scopes alone and not by the analyzer.
\<close>

theorem errors_complete_and_ordered:
  "getErrors (snd (check program new_ScopeAnalyzer)) =
     map fst (redeclarations VariableRedefined [] (map vname (program_globals program))) @
     map fst (redeclarations FunctionRedefined (map vname (program_globals program))
       (map fname (program_functions program))) @
     concat (map (\<lambda>func. map fst (function_faults (global_scope program) func))
       (program_functions program)) @
     map fst (initializer_faults (global_scope program) (program_globals program))"
  by (simp add: getErrors_def check_faults program_faults_def map_concat comp_def)

subsection \<open>Termination\<close>

text \<open>
  C9. The traversal terminates and its work is bounded by the size of the tree. A program
  is a finite tree (a value of a datatype), and \<^verbatim>\<open>check_node\<close>, \<^verbatim>\<open>check_function\<close> and
  \<^verbatim>\<open>check\<close> are total functions on it: \<open>check_node\<close> is defined by recursion on the tree
  with a termination proof. The number of calls of \<^verbatim>\<open>check_node\<close> and \<^verbatim>\<open>check_function\<close> and
  of loop passes that one \<^verbatim>\<open>check\<close> makes is at most three times the size of the program,
  from whatever state of the analyzer it starts.
\<close>

theorem check_work_bounded:
  "T_check program st \<le> 3 * program_size program"
proof -
  let ?st2 = "phase1_functions program (phase1_globals program st)"
  let ?G = "sum_list (map (\<lambda>var. 1 + ast_size (vvalue var)) (program_globals program))"
  let ?F = "sum_list (map (\<lambda>func. 1 + length (fparams func) + ast_size (fbody func))
       (program_functions program))"
  have "length (program_globals program) \<le> ?G"
    by (rule length_le_sum_list)
  moreover have "length (program_functions program) \<le> ?F"
    using length_le_sum_list [of "program_functions program" "\<lambda>func. length (fparams func) + ast_size (fbody func)"]
    by (simp add: add.assoc)
  moreover have "T_phase2 (program_functions program) ?st2 \<le> 2 * ?F"
    by (rule T_phase2_le)
  moreover have "T_phase3 (program_globals program) (phase2 program ?st2) \<le> ?G"
    by (rule T_phase3_le)
  ultimately show ?thesis
    by (simp add: T_check_def Let_def program_size_def)
qed

end
